theory Spec2Isabelle
  imports Main
begin

section \<open>Go strings and the library functions the sources call\<close>

text \<open>
  A Go string is a sequence of bytes; \<^typ>\<open>string\<close> (a list of 8-bit characters) is the
  same thing. The functions below are the calls of package \<^verbatim>\<open>strings\<close> and \<^verbatim>\<open>fmt\<close> that
  the sources make, written for the arguments they are called with.
\<close>

definition HasPrefix :: "string \<Rightarrow> string \<Rightarrow> bool" where
  \<comment> \<open>\<^verbatim>\<open>strings.HasPrefix(s, prefix)\<close>: \<^verbatim>\<open>len(s) >= len(prefix) && s[:len(prefix)] == prefix\<close>\<close>
  "HasPrefix s p = (length p \<le> length s \<and> take (length p) s = p)"

definition TrimPrefix :: "string \<Rightarrow> string \<Rightarrow> string" where
  \<comment> \<open>\<^verbatim>\<open>strings.TrimPrefix(s, prefix)\<close>\<close>
  "TrimPrefix s p = (if HasPrefix s p then drop (length p) s else s)"

definition Contains :: "string \<Rightarrow> char \<Rightarrow> bool" where
  \<comment> \<open>\<^verbatim>\<open>strings.Contains(s, sep)\<close> for a separator of one byte\<close>
  "Contains s c = (c \<in> set s)"

definition SplitN2 :: "string \<Rightarrow> char \<Rightarrow> string list" where
  \<comment> \<open>\<^verbatim>\<open>strings.SplitN(s, sep, 2)\<close> for a separator of one byte: the string is cut at the
      first separator only; without a separator the result is the one-element slice \<^verbatim>\<open>[s]\<close>\<close>
  "SplitN2 s c =
     (if c \<in> set s then [takeWhile (\<lambda>x. x \<noteq> c) s, tl (dropWhile (\<lambda>x. x \<noteq> c) s)]
      else [s])"

fun Join :: "string list \<Rightarrow> string \<Rightarrow> string" where
  \<comment> \<open>\<^verbatim>\<open>strings.Join(elems, sep)\<close>\<close>
  "Join [] sep = []"
| "Join [x] sep = x"
| "Join (x # y # ys) sep = x @ sep @ Join (y # ys) sep"

definition digit_char :: "nat \<Rightarrow> char" where
  \<comment> \<open>the character of a decimal digit; only called with \<open>n < 10\<close>\<close>
  "digit_char n = ''0123456789'' ! n"

function decimal :: "nat \<Rightarrow> string" where
  "decimal n = (if n < 10 then [digit_char n] else decimal (n div 10) @ [digit_char (n mod 10)])"
  by pat_completeness auto
termination
  by (relation "measure id") auto

declare decimal.simps [simp del]

definition Sprintf_d :: "int \<Rightarrow> string" where
  \<comment> \<open>\<^verbatim>\<open>fmt.Sprintf("%d", i)\<close>\<close>
  "Sprintf_d i = (if i < 0 then CHR ''-'' # decimal (nat (- i)) else decimal (nat i))"

section \<open>Errors\<close>

text \<open>
  Go errors are values carrying a message. Each constructor stands for one way the sources
  build an error:
  \<^item> \<open>InvalidFormat addr\<close>: \<^verbatim>\<open>fmt.Errorf("invalid address format: expected 'rig/polecat', got '%s'", addr)\<close>
    in \<^verbatim>\<open>parseAddress\<close>;
  \<^item> \<open>SessionNotFound target\<close>: \<^verbatim>\<open>fmt.Errorf("session %q not found", target)\<close> in \<^verbatim>\<open>runNudge\<close>;
  \<^item> \<open>RigNotFound rigName\<close>: \<^verbatim>\<open>fmt.Errorf("rig '%s' not found", rigName)\<close> in
    \<^verbatim>\<open>getSessionManager\<close>;
  \<^item> \<open>Wrapped ctx e\<close>: \<^verbatim>\<open>fmt.Errorf("<ctx>: %w", e)\<close>;
  \<^item> \<open>ErrorText s\<close>: \<^verbatim>\<open>errors.New(s)\<close>, and every error that comes back from a package
    whose code is not part of these files (tmux, the \<^verbatim>\<open>bd\<close> subprocess, the workspace).
\<close>

datatype error =
    InvalidFormat string
  | SessionNotFound string
  | RigNotFound string
  | Wrapped string error
  | ErrorText string

section \<open>Addresses (\<^verbatim>\<open>internal/cmd/session.go\<close>, \<^verbatim>\<open>internal/mail/router.go\<close>)\<close>

definition parseAddress :: "string \<Rightarrow> string \<times> string \<times> error option" where
  \<comment> \<open>session.go, lines 146-153. The Go function returns \<^verbatim>\<open>(rigName, polecatName, err)\<close>;
      \<open>None\<close> is the \<^verbatim>\<open>nil\<close> error.\<close>
  "parseAddress addr =
     (let parts = SplitN2 addr (CHR ''/'') in
      if length parts \<noteq> 2 \<or> parts ! 0 = [] \<or> parts ! 1 = []
      then ([], [], Some (InvalidFormat addr))
      else (parts ! 0, parts ! 1, None))"

definition addressToSessionID :: "string \<Rightarrow> string" where
  \<comment> \<open>router.go, lines 123-141. The empty string is the "not recognised" result.\<close>
  "addressToSessionID address =
     (if HasPrefix address ''mayor'' then ''gt-mayor''
      else
        let parts = SplitN2 address (CHR ''/'') in
        if length parts \<noteq> 2 \<or> parts ! 1 = [] then []
        else
          let rig = parts ! 0; target = parts ! 1 in
          ''gt-'' @ rig @ ''-'' @ target)"

section \<open>The tmux handle and the effects of a command\<close>

text \<open>
  Package \<^verbatim>\<open>internal/tmux\<close> is used through three methods of its handle; its code is not
  part of these files, so the handle is a record of the answers its methods give. Each
  function modelled here calls a method at most once with given arguments, so an answer that
  depends on the arguments only loses nothing. In Go \<^verbatim>\<open>HasSession\<close> returns \<^verbatim>\<open>(bool, error)\<close>
  (here \<open>Inl\<close> is the error) and the other two return an \<^verbatim>\<open>error\<close> (\<open>None\<close> is \<^verbatim>\<open>nil\<close>).
\<close>

record Tmux =
  HasSession :: "string \<Rightarrow> error + bool"
  NudgeSession :: "string \<Rightarrow> string \<Rightarrow> error option"
  SendNotificationBanner :: "string \<Rightarrow> string \<Rightarrow> string \<Rightarrow> error option"

text \<open>
  What a command prints to standard output, by message (the styled glyph in front of the text
  is left out): \<^verbatim>\<open>"Deacon not running, nudge skipped"\<close>, \<^verbatim>\<open>"Nudged deacon"\<close>,
  \<^verbatim>\<open>"Nudged <rig>/<polecat>"\<close> and \<^verbatim>\<open>"Nudged <target>"\<close>.
\<close>

datatype notice =
    DeaconNotRunning
  | NudgedDeacon
  | NudgedPolecat string string
  | NudgedSession string

text \<open>
  The calls a function makes on the world outside it, in the order it makes them: the tmux
  methods with their arguments, the \<^verbatim>\<open>bd\<close> subprocess with its working directory and
  arguments, the line printed, \<^verbatim>\<open>LogNudge(townRoot, target, message)\<close> and
  \<^verbatim>\<open>events.LogFeed(events.TypeNudge, sender, events.NudgePayload(rig, target, message))\<close>.
\<close>

datatype effect =
    Tmux_HasSession string
  | Tmux_NudgeSession string string
  | Tmux_SendNotificationBanner string string string
  | Exec_bd string "string list"
  | Printf notice
  | LogNudge string string string
  | LogFeed string string string string

section \<open>The mail router (\<^verbatim>\<open>internal/mail/router.go\<close>)\<close>

text \<open>
  \<^verbatim>\<open>Message\<close> is declared in another file of package \<^verbatim>\<open>mail\<close>; the record has the fields
  \<^verbatim>\<open>Send\<close> reads. \<^verbatim>\<open>Type\<close> is a string type in Go (\<^verbatim>\<open>Send\<close> compares it with \<^verbatim>\<open>""\<close> and
  converts it with \<^verbatim>\<open>string(msg.Type)\<close>); the type of \<^verbatim>\<open>Priority\<close> is only passed on to
  \<^verbatim>\<open>PriorityToBeads\<close> and stays a type parameter.
\<close>

record 'p Message =
  From :: string
  To :: string
  Subject :: string
  Body :: string
  Priority :: 'p
  Type :: string
  ThreadID :: string
  ReplyTo :: string
  Pinned :: bool

record Router =
  workDir :: string
  tmux :: Tmux

definition notifyRecipient :: "Router \<Rightarrow> ('p, 'z) Message_scheme \<Rightarrow> error option \<times> effect list" where
  \<comment> \<open>router.go, lines 105-119\<close>
  "notifyRecipient r msg =
     (let sessionID = addressToSessionID (To msg) in
      if sessionID = [] then (None, [])
      else
        case HasSession (tmux r) sessionID of
          Inl err \<Rightarrow> (None, [Tmux_HasSession sessionID])
        | Inr hasSession \<Rightarrow>
            if \<not> hasSession then (None, [Tmux_HasSession sessionID])
            else (SendNotificationBanner (tmux r) sessionID (From msg) (Subject msg),
                  [Tmux_HasSession sessionID,
                   Tmux_SendNotificationBanner sessionID (From msg) (Subject msg)]))"


text \<open>
  What \<^verbatim>\<open>Send\<close> reads from code outside \<^verbatim>\<open>router.go\<close>:
  \<^item> \<open>addressToIdentity\<close>, \<open>PriorityToBeads\<close> and the constant \<open>TypeNotification\<close> of package
    \<^verbatim>\<open>mail\<close>;
  \<^item> \<open>TrimSpace\<close>: \<^verbatim>\<open>strings.TrimSpace\<close>, which knows the Unicode white space; no result below
    depends on what it removes;
  \<^item> \<open>run_bd dir args\<close>: what running \<^verbatim>\<open>exec.Command("bd", args...)\<close> in directory \<open>dir\<close> gives,
    the error of \<^verbatim>\<open>Run()\<close> and the two captured output streams.
\<close>

record cmd_result =
  run_err :: "error option"
  stdout :: string
  stderr :: string

record 'p mail_env =
  addressToIdentity :: "string \<Rightarrow> string"
  PriorityToBeads :: "'p \<Rightarrow> int"
  TypeNotification :: string
  TrimSpace :: "string \<Rightarrow> string"
  run_bd :: "string \<Rightarrow> string list \<Rightarrow> cmd_result"

definition Send_labels :: "'p mail_env \<Rightarrow> ('p, 'z) Message_scheme \<Rightarrow> string list" where
  \<comment> \<open>router.go, lines 31-44 (of \<^verbatim>\<open>Send\<close>): the slice \<^verbatim>\<open>labels\<close>\<close>
  "Send_labels e msg =
     (let fromIdentity = addressToIdentity e (From msg) in
      [''from:'' @ fromIdentity]
      @ (if ThreadID msg \<noteq> [] then [''thread:'' @ ThreadID msg] else [])
      @ (if ReplyTo msg \<noteq> [] then [''reply-to:'' @ ReplyTo msg] else [])
      @ (if Type msg \<noteq> [] \<and> Type msg \<noteq> TypeNotification e then [''msg-type:'' @ Type msg]
         else []))"

definition Send_args :: "'p mail_env \<Rightarrow> ('p, 'z) Message_scheme \<Rightarrow> string list" where
  \<comment> \<open>router.go, lines 31-64 (of \<^verbatim>\<open>Send\<close>): the slice \<^verbatim>\<open>args\<close> given to \<^verbatim>\<open>bd\<close>\<close>
  "Send_args e msg =
     (let toIdentity = addressToIdentity e (To msg);
          labels = Send_labels e msg;
          beadsPriority = PriorityToBeads e (Priority msg)
      in
      [''create'', ''--type'', ''message'', ''--assignee'', toIdentity,
       ''--title'', Subject msg, ''-d'', Body msg]
      @ [''--priority'', Sprintf_d beadsPriority]
      @ (if length labels > 0 then [''--labels'', Join labels '',''] else [])
      @ [''--silent''])"

definition Send :: "'p mail_env \<Rightarrow> Router \<Rightarrow> ('p, 'z) Message_scheme \<Rightarrow> error option \<times> effect list" where
  \<comment> \<open>router.go, lines 29-95. The result is the returned error (\<open>None\<close> is \<^verbatim>\<open>nil\<close>) and the
      calls made.\<close>
  "Send e r msg =
     (let args = Send_args e msg;
          res = run_bd e (workDir r) args
      in
      case run_err res of
        Some err \<Rightarrow>
          (let errMsg = TrimSpace e (stderr res) in
           if errMsg \<noteq> [] then (Some (ErrorText errMsg), [Exec_bd (workDir r) args])
           else (Some (Wrapped ''sending message'' err), [Exec_bd (workDir r) args]))
      | None \<Rightarrow>
          (let issueID = TrimSpace e (stdout res);
               pin = (if Pinned msg \<and> issueID \<noteq> [] then [Exec_bd (workDir r) [''pin'', issueID]]
                      else []);
               notified = snd (notifyRecipient r msg)
           in (None, [Exec_bd (workDir r) args] @ pin @ notified)))"

text \<open>The two kinds of \<^verbatim>\<open>bd\<close> call that \<^verbatim>\<open>Send\<close> makes, told apart by the subcommand.\<close>

fun is_bd_create :: "effect \<Rightarrow> bool" where
  "is_bd_create (Exec_bd dir (a # as)) = (a = ''create'')"
| "is_bd_create _ = False"

fun is_bd_pin :: "effect \<Rightarrow> bool" where
  "is_bd_pin (Exec_bd dir (a # as)) = (a = ''pin'')"
| "is_bd_pin _ = False"

section \<open>The nudge command (\<^verbatim>\<open>internal/cmd/rig_helpers.go\<close>, \<^verbatim>\<open>internal/cmd/session.go\<close>)\<close>

text \<open>
  \<^verbatim>\<open>roleInfo.Role\<close> is a string type with six named constants; \<open>RoleOther s\<close> is a role whose
  string \<open>s\<close> is none of them (the \<^verbatim>\<open>default\<close> branch of the switch).
\<close>

datatype role =
    RoleMayor
  | RoleCrew
  | RolePolecat
  | RoleWitness
  | RoleRefinery
  | RoleDeacon
  | RoleOther string

record RoleInfo =
  Role :: role
  Rig :: string
  Polecat :: string

text \<open>
  What package \<^verbatim>\<open>cmd\<close> reads from code outside these files, as a record of answers:
  \<^item> \<open>GetRole\<close>: the result of \<^verbatim>\<open>GetRole()\<close>;
  \<^item> \<open>DeaconSessionName\<close>: the constant of that name;
  \<^item> \<open>FindFromCwdOrError\<close>, \<open>FindFromCwd\<close>: the results of the two workspace lookups (the town
    root);
  \<^item> \<open>GetRig townRoot rigName\<close>: the result of \<^verbatim>\<open>rigMgr.GetRig(rigName)\<close> for the rig manager
    that \<^verbatim>\<open>getSessionManager\<close> builds from the town root and its \<^verbatim>\<open>mayor/rigs.json\<close> (an
    unreadable file counting as an empty configuration);
  \<^item> \<open>SessionName r polecat\<close>: \<^verbatim>\<open>mgr.SessionName(polecat)\<close> for the session manager of rig \<open>r\<close>;
  \<^item> \<open>crewSessionName rig crew\<close>: the function of that name.
  The type of a rig is a parameter.
\<close>

record 'rig cmd_env =
  GetRole :: "error + RoleInfo"
  DeaconSessionName :: string
  FindFromCwdOrError :: "error + string"
  FindFromCwd :: "error + string"
  GetRig :: "string \<Rightarrow> string \<Rightarrow> error + 'rig"
  SessionName :: "'rig \<Rightarrow> string \<Rightarrow> string"
  crewSessionName :: "string \<Rightarrow> string \<Rightarrow> string"

definition getSessionManager :: "'rig cmd_env \<Rightarrow> string \<Rightarrow> error + 'rig" where
  \<comment> \<open>session.go, lines 156-183. The session manager is identified with the rig it is made for.\<close>
  "getSessionManager e rigName =
     (case FindFromCwdOrError e of
        Inl err \<Rightarrow> Inl (Wrapped ''not in a Gas Town workspace'' err)
      | Inr townRoot \<Rightarrow>
          (case GetRig e townRoot rigName of
             Inl err \<Rightarrow> Inl (RigNotFound rigName)
           | Inr r \<Rightarrow> Inr r))"

definition nudge_sender :: "'rig cmd_env \<Rightarrow> string" where
  \<comment> \<open>rig_helpers.go, lines 90-109 (of \<^verbatim>\<open>runNudge\<close>): the sender named in the prefix\<close>
  "nudge_sender e =
     (case GetRole e of
        Inl err \<Rightarrow> ''unknown''
      | Inr roleInfo \<Rightarrow>
          (case Role roleInfo of
             RoleMayor \<Rightarrow> ''mayor''
           | RoleCrew \<Rightarrow> Rig roleInfo @ ''/crew/'' @ Polecat roleInfo
           | RolePolecat \<Rightarrow> Rig roleInfo @ ''/'' @ Polecat roleInfo
           | RoleWitness \<Rightarrow> Rig roleInfo @ ''/witness''
           | RoleRefinery \<Rightarrow> Rig roleInfo @ ''/refinery''
           | RoleDeacon \<Rightarrow> ''deacon''
           | RoleOther s \<Rightarrow> s))"

definition nudge_message :: "'rig cmd_env \<Rightarrow> string \<Rightarrow> string" where
  \<comment> \<open>line 112: \<^verbatim>\<open>fmt.Sprintf("[from %s] %s", sender, message)\<close>\<close>
  "nudge_message e message = ''[from '' @ nudge_sender e @ ''] '' @ message"

definition nudge_log :: "'rig cmd_env \<Rightarrow> string \<Rightarrow> string \<Rightarrow> string \<Rightarrow> effect list" where
  \<comment> \<open>the "Log nudge event" lines that end each of the three branches of \<^verbatim>\<open>runNudge\<close>\<close>
  "nudge_log e rig target message =
     (case FindFromCwd e of
        Inl err \<Rightarrow> []
      | Inr townRoot \<Rightarrow> if townRoot \<noteq> [] then [LogNudge townRoot target message] else [])
     @ [LogFeed (nudge_sender e) rig target message]"

definition nudge_session_name :: "'rig cmd_env \<Rightarrow> string \<Rightarrow> string \<Rightarrow> error + string" where
  \<comment> \<open>lines 151-165 (of \<^verbatim>\<open>runNudge\<close>): the session of a rig address\<close>
  "nudge_session_name e rigName polecatName =
     (if HasPrefix polecatName ''crew/''
      then Inr (crewSessionName e rigName (TrimPrefix polecatName ''crew/''))
      else
        case getSessionManager e rigName of
          Inl err \<Rightarrow> Inl err
        | Inr mgr \<Rightarrow> Inr (SessionName e mgr polecatName))"

definition runNudge :: "'rig cmd_env \<Rightarrow> Tmux \<Rightarrow> string \<Rightarrow> string \<Rightarrow> error option \<times> effect list" where
  \<comment> \<open>rig_helpers.go, lines 86-203, for \<^verbatim>\<open>args = [target, message0]\<close>. The result is the
      returned error (\<open>None\<close> is \<^verbatim>\<open>nil\<close>) and the calls made.\<close>
  "runNudge e t target message0 =
     (let message = nudge_message e message0 in
      if target = ''deacon'' then
        (case HasSession t (DeaconSessionName e) of
           Inl err \<Rightarrow>
             (Some (Wrapped ''checking deacon session'' err),
              [Tmux_HasSession (DeaconSessionName e)])
         | Inr exists \<Rightarrow>
             if \<not> exists then
               (None, [Tmux_HasSession (DeaconSessionName e), Printf DeaconNotRunning])
             else
               (case NudgeSession t (DeaconSessionName e) message of
                  Some err \<Rightarrow>
                    (Some (Wrapped ''nudging deacon'' err),
                     [Tmux_HasSession (DeaconSessionName e),
                      Tmux_NudgeSession (DeaconSessionName e) message])
                | None \<Rightarrow>
                    (None,
                     [Tmux_HasSession (DeaconSessionName e),
                      Tmux_NudgeSession (DeaconSessionName e) message,
                      Printf NudgedDeacon]
                     @ nudge_log e [] ''deacon'' message)))
      else if Contains target (CHR ''/'') then
        (case parseAddress target of
           (rigName, polecatName, Some err) \<Rightarrow> (Some err, [])
         | (rigName, polecatName, None) \<Rightarrow>
             (case nudge_session_name e rigName polecatName of
                Inl err \<Rightarrow> (Some err, [])
              | Inr sessionName \<Rightarrow>
                  (case NudgeSession t sessionName message of
                     Some err \<Rightarrow>
                       (Some (Wrapped ''nudging session'' err),
                        [Tmux_NudgeSession sessionName message])
                   | None \<Rightarrow>
                       (None,
                        [Tmux_NudgeSession sessionName message,
                         Printf (NudgedPolecat rigName polecatName)]
                        @ nudge_log e rigName target message))))
      else
        (case HasSession t target of
           Inl err \<Rightarrow> (Some (Wrapped ''checking session'' err), [Tmux_HasSession target])
         | Inr exists \<Rightarrow>
             if \<not> exists then (Some (SessionNotFound target), [Tmux_HasSession target])
             else
               (case NudgeSession t target message of
                  Some err \<Rightarrow>
                    (Some (Wrapped ''nudging session'' err),
                     [Tmux_HasSession target, Tmux_NudgeSession target message])
                | None \<Rightarrow>
                    (None,
                     [Tmux_HasSession target, Tmux_NudgeSession target message,
                      Printf (NudgedSession target)]
                     @ nudge_log e [] target message))))"

section \<open>The delivery channel\<close>

text \<open>
  Modelled from the spec: \<^verbatim>\<open>NudgeSession\<close> of package \<^verbatim>\<open>internal/tmux\<close> is not among the source
  files; section 4.3 of the specification and the help text of the \<^verbatim>\<open>nudge\<close> command give its
  three steps and its contract \<^verbatim>\<open>nudge(sessionID, text) -> fails(SessionNotFound | SendFailed)\<close>.
  A tmux operation is a literal paste into a session, a wait of so many milliseconds, or a
  key sent to a session. The tmux server answers a paste and a key with \<^verbatim>\<open>nil\<close> or with an
  error (no such session, or a send that failed); \<open>send\<close> below is that answer, and it is a
  parameter: a run can fail at either send.
\<close>

datatype tmux_op =
    SendLiteral string string
  | Settle nat
  | SendKey string string

definition send_literal ::
  "(tmux_op \<Rightarrow> error option) \<Rightarrow> string \<Rightarrow> string \<Rightarrow> tmux_op list \<Rightarrow> error option \<times> tmux_op list" where
  \<comment> \<open>Modelled from the spec: "submit the message body as a literal paste (no key-code
      interpretation) into the target session"; the result is the server's answer\<close>
  "send_literal send sessionID text log =
     (send (SendLiteral sessionID text), log @ [SendLiteral sessionID text])"

definition settle :: "nat \<Rightarrow> tmux_op list \<Rightarrow> tmux_op list" where
  \<comment> \<open>Modelled from the spec: "wait a fixed settle interval"\<close>
  "settle ms log = log @ [Settle ms]"

definition send_key ::
  "(tmux_op \<Rightarrow> error option) \<Rightarrow> string \<Rightarrow> string \<Rightarrow> tmux_op list \<Rightarrow> error option \<times> tmux_op list" where
  \<comment> \<open>Modelled from the spec: "submit a separate, single commit keystroke (Enter) as its own
      operation"; the result is the server's answer\<close>
  "send_key send sessionID key log =
     (send (SendKey sessionID key), log @ [SendKey sessionID key])"

definition nudge ::
  "(tmux_op \<Rightarrow> error option) \<Rightarrow> string \<Rightarrow> string \<Rightarrow> error option \<times> tmux_op list" where
  \<comment> \<open>Modelled from the spec: \<^verbatim>\<open>nudge(sessionID, text) -> fails(SessionNotFound | SendFailed)\<close>.
      The three steps of section 4.3 with the settle interval of 500 ms; the specification
      says that nudge "always issues" the three, so a failed paste does not stop the other
      two. A failure is surfaced as the result, the paste's before the key's. The second
      component is what tmux was asked to do.\<close>
  "nudge send sessionID text =
     (let (pasted, log1) = send_literal send sessionID text [];
          log2 = settle 500 log1;
          (committed, log3) = send_key send sessionID ''Enter'' log2
      in (case pasted of Some err \<Rightarrow> Some err | None \<Rightarrow> committed, log3))"

fun is_commit_key :: "tmux_op \<Rightarrow> bool" where
  "is_commit_key (SendKey sessionID key) = True"
| "is_commit_key _ = False"

fun is_paste :: "tmux_op \<Rightarrow> bool" where
  "is_paste (SendLiteral sessionID text) = True"
| "is_paste _ = False"

text \<open>
  The tmux operations behind the calls that a command makes: every \<^verbatim>\<open>NudgeSession\<close> call of
  the command stands for the operations of \<open>nudge\<close> on that session and message, and the
  tmux handle of the command answers such a call with the result of \<open>nudge\<close>.
\<close>

fun nudge_ops :: "(tmux_op \<Rightarrow> error option) \<Rightarrow> effect list \<Rightarrow> tmux_op list" where
  "nudge_ops send [] = []"
| "nudge_ops send (Tmux_NudgeSession sessionID message # effects) =
     snd (nudge send sessionID message) @ nudge_ops send effects"
| "nudge_ops send (x # effects) = nudge_ops send effects"

definition tmux_with_nudge :: "(tmux_op \<Rightarrow> error option) \<Rightarrow> Tmux \<Rightarrow> Tmux" where
  "tmux_with_nudge send t = t\<lparr>NudgeSession := (\<lambda>sessionID message. fst (nudge send sessionID message))\<rparr>"

section \<open>The wisp ledger\<close>

text \<open>
  Modelled from the spec: the wisp ledger is the \<^verbatim>\<open>bd mol\<close> and \<^verbatim>\<open>bd wisp\<close> commands of Beads,
  whose code is not among the source files; \<^verbatim>\<open>docs/wisp-architecture.md\<close> describes them.
  The records follow section 3 of the specification: a step is \<^verbatim>\<open>{id, status}\<close>, a molecule
  is \<^verbatim>\<open>{id, protoName, steps, wisp, processID, updatedAt}\<close> and a digest is
  \<^verbatim>\<open>{id, title, description, parentRef, squashedFrom, createdAt}\<close>. Identifiers are numbers
  (the field is called \<open>mol_id\<close>, \<open>step_id\<close> or \<open>digest_id\<close>), times are numbers, and
  \<open>abandoned\<close> is the mark that burning puts on a molecule of the durable store.
\<close>

datatype step_status = Pending | Complete

record Step =
  step_id :: string
  status :: step_status

record Molecule =
  mol_id :: nat
  protoName :: string
  steps :: "Step list"
  wisp :: bool
  processID :: "nat option"
  updatedAt :: nat
  abandoned :: bool

record Digest =
  digest_id :: nat
  title :: string
  description :: string
  parentRef :: string
  squashedFrom :: nat
  createdAt :: nat

text \<open>
  Modelled from the spec: the two stores, \<^verbatim>\<open>.beads-wisp/issues.jsonl\<close> (ephemeral) and
  \<^verbatim>\<open>.beads/issues.jsonl\<close> (durable), each a list of records; the durable store holds
  molecules and digests. \<open>next_id\<close> is the next identifier to allocate: a new record gets an
  identifier that no record has had.
\<close>

record Ledger =
  ephemeral :: "Molecule list"
  durable :: "Molecule list"
  digests :: "Digest list"
  next_id :: nat

text \<open>Modelled from the spec: the failures \<^verbatim>\<open>UnknownMolecule\<close> and \<^verbatim>\<open>UnknownStep\<close> of section 4.5.\<close>

datatype ledger_error = UnknownMolecule | UnknownStep

definition empty_ledger :: Ledger where
  \<comment> \<open>Modelled from the spec: both stores before the first \<^verbatim>\<open>bond\<close>\<close>
  "empty_ledger = \<lparr>ephemeral = [], durable = [], digests = [], next_id = 0\<rparr>"

definition find_mol :: "nat \<Rightarrow> Molecule list \<Rightarrow> Molecule option" where
  \<comment> \<open>Modelled from the spec: the record of a store with a given id\<close>
  "find_mol i ms = List.find (\<lambda>m. mol_id m = i) ms"

definition remove_mol :: "nat \<Rightarrow> Molecule list \<Rightarrow> Molecule list" where
  \<comment> \<open>Modelled from the spec: deleting the records with a given id from a store\<close>
  "remove_mol i ms = filter (\<lambda>m. mol_id m \<noteq> i) ms"

definition update_mol :: "nat \<Rightarrow> (Molecule \<Rightarrow> Molecule) \<Rightarrow> Molecule list \<Rightarrow> Molecule list" where
  \<comment> \<open>Modelled from the spec: rewriting the records with a given id in place\<close>
  "update_mol i f ms = map (\<lambda>m. if mol_id m = i then f m else m) ms"

definition new_molecule :: "(string \<Rightarrow> string list) \<Rightarrow> nat \<Rightarrow> string \<Rightarrow> bool \<Rightarrow> nat option \<Rightarrow> nat \<Rightarrow> Molecule" where
  \<comment> \<open>Modelled from the spec: a molecule as \<^verbatim>\<open>bond\<close> creates it, every step of its proto pending;
      \<open>protos\<close> gives the step ids of a proto\<close>
  "new_molecule protos i proto wispFlag pid now =
     \<lparr>mol_id = i, protoName = proto,
      steps = map (\<lambda>s. \<lparr>step_id = s, status = Pending\<rparr>) (protos proto),
      wisp = wispFlag, processID = pid, updatedAt = now, abandoned = False\<rparr>"

definition bond :: "(string \<Rightarrow> string list) \<Rightarrow> string \<Rightarrow> bool \<Rightarrow> nat option \<Rightarrow> nat \<Rightarrow> Ledger \<Rightarrow> Molecule \<times> Ledger" where
  \<comment> \<open>Modelled from the spec: "allocates a new molecule in the ephemeral store if \<^verbatim>\<open>wisp=true\<close>
      is requested, else in the durable store"\<close>
  "bond protos proto wispFlag pid now L =
     (let m = new_molecule protos (next_id L) proto wispFlag pid now in
      (m, if wispFlag
          then L\<lparr>ephemeral := ephemeral L @ [m], next_id := Suc (next_id L)\<rparr>
          else L\<lparr>durable := durable L @ [m], next_id := Suc (next_id L)\<rparr>))"

definition complete_step :: "string \<Rightarrow> nat \<Rightarrow> Molecule \<Rightarrow> Molecule" where
  \<comment> \<open>Modelled from the spec: "marks one step complete"\<close>
  "complete_step sid now m =
     m\<lparr>steps := map (\<lambda>s. if step_id s = sid then s\<lparr>status := Complete\<rparr> else s) (steps m),
       updatedAt := now\<rparr>"

definition step :: "nat \<Rightarrow> string \<Rightarrow> nat \<Rightarrow> Ledger \<Rightarrow> ledger_error + Ledger" where
  \<comment> \<open>Modelled from the spec: \<^verbatim>\<open>step(moleculeID, stepID) -> fails(UnknownMolecule | UnknownStep)\<close>;
      the molecule is updated in the store that holds it\<close>
  "step mid sid now L =
     (case find_mol mid (ephemeral L) of
        Some m \<Rightarrow>
          if sid \<in> set (map step_id (steps m))
          then Inr (L\<lparr>ephemeral := update_mol mid (complete_step sid now) (ephemeral L)\<rparr>)
          else Inl UnknownStep
      | None \<Rightarrow>
          (case find_mol mid (durable L) of
             Some m \<Rightarrow>
               if sid \<in> set (map step_id (steps m))
               then Inr (L\<lparr>durable := update_mol mid (complete_step sid now) (durable L)\<rparr>)
               else Inl UnknownStep
           | None \<Rightarrow> Inl UnknownMolecule))"

definition new_digest :: "nat \<Rightarrow> Molecule \<Rightarrow> string \<Rightarrow> nat \<Rightarrow> Digest" where
  \<comment> \<open>Modelled from the spec: a digest "referencing the molecule's parent and original id"; the
      proto name stands for the parent and for the title, the summary is the description\<close>
  "new_digest i m summary now =
     \<lparr>digest_id = i, title = protoName m, description = summary, parentRef = protoName m,
      squashedFrom = mol_id m, createdAt = now\<rparr>"

definition squash :: "nat \<Rightarrow> string \<Rightarrow> nat \<Rightarrow> Ledger \<Rightarrow> ledger_error + nat \<times> Ledger" where
  \<comment> \<open>Modelled from the spec: \<^verbatim>\<open>squash(moleculeID, summary) -> DigestID | fails(UnknownMolecule)\<close>,
      "writes a Digest to the durable store ..., then deletes the wisp record"; for a molecule
      of the durable store the document's table says "creates digest in permanent"\<close>
  "squash mid summary now L =
     (case find_mol mid (ephemeral L) of
        Some m \<Rightarrow>
          Inr (next_id L,
               L\<lparr>digests := digests L @ [new_digest (next_id L) m summary now],
                 ephemeral := remove_mol mid (ephemeral L),
                 next_id := Suc (next_id L)\<rparr>)
      | None \<Rightarrow>
          (case find_mol mid (durable L) of
             Some m \<Rightarrow>
               Inr (next_id L,
                    L\<lparr>digests := digests L @ [new_digest (next_id L) m summary now],
                      next_id := Suc (next_id L)\<rparr>)
           | None \<Rightarrow> Inl UnknownMolecule))"

definition burn :: "nat \<Rightarrow> Ledger \<Rightarrow> Ledger" where
  \<comment> \<open>Modelled from the spec: "deletes the wisp with no digest, for non-wisp molecules marks the
      record abandoned instead of deleting it"\<close>
  "burn mid L =
     (case find_mol mid (ephemeral L) of
        Some m \<Rightarrow> L\<lparr>ephemeral := remove_mol mid (ephemeral L)\<rparr>
      | None \<Rightarrow> L\<lparr>durable := update_mol mid (\<lambda>m. m\<lparr>abandoned := True\<rparr>) (durable L)\<rparr>)"

definition mol_complete :: "Molecule \<Rightarrow> bool" where
  \<comment> \<open>Modelled from the spec: a molecule is complete when all its steps are\<close>
  "mol_complete m = list_all (\<lambda>s. status s = Complete) (steps m)"

definition orphaned :: "nat list \<Rightarrow> nat \<Rightarrow> nat \<Rightarrow> Molecule \<Rightarrow> bool" where
  \<comment> \<open>Modelled from the spec: "a wisp is orphaned when either (a) it records a process
      identifier and that process no longer exists, or (b) its last-update timestamp exceeds
      \<^verbatim>\<open>orphanThreshold\<close> - AND it is not yet complete"; \<open>alive\<close> lists the processes that exist\<close>
  "orphaned alive now threshold m =
     (((case processID m of Some p \<Rightarrow> p \<notin> set alive | None \<Rightarrow> False)
       \<or> updatedAt m + threshold < now)
      \<and> \<not> mol_complete m)"

definition gc :: "nat list \<Rightarrow> nat \<Rightarrow> nat \<Rightarrow> Ledger \<Rightarrow> nat \<times> Ledger" where
  \<comment> \<open>Modelled from the spec: \<^verbatim>\<open>gc(orphanThreshold) -> count of reclaimed\<close>, "orphaned wisps are
      deleted unconditionally"\<close>
  "gc alive now threshold L =
     (length (filter (orphaned alive now threshold) (ephemeral L)),
      L\<lparr>ephemeral := filter (\<lambda>m. \<not> orphaned alive now threshold m) (ephemeral L)\<rparr>)"

text \<open>
  A lifecycle is a sequence of the ledger's operations; one that fails leaves the ledger as it
  was.
\<close>

datatype ledger_op =
    Bond string bool "nat option" nat
  | CompleteStep nat string nat
  | Squash nat string nat
  | Burn nat
  | Gc "nat list" nat nat

fun apply_op :: "(string \<Rightarrow> string list) \<Rightarrow> Ledger \<Rightarrow> ledger_op \<Rightarrow> Ledger" where
  "apply_op protos L (Bond proto wispFlag pid now) = snd (bond protos proto wispFlag pid now L)"
| "apply_op protos L (CompleteStep mid sid now) =
     (case step mid sid now L of Inl err \<Rightarrow> L | Inr L' \<Rightarrow> L')"
| "apply_op protos L (Squash mid summary now) =
     (case squash mid summary now L of Inl err \<Rightarrow> L | Inr (d, L') \<Rightarrow> L')"
| "apply_op protos L (Burn mid) = burn mid L"
| "apply_op protos L (Gc alive now threshold) = snd (gc alive now threshold L)"

definition run :: "(string \<Rightarrow> string list) \<Rightarrow> Ledger \<Rightarrow> ledger_op list \<Rightarrow> Ledger" where
  "run protos L ops = foldl (apply_op protos) L ops"

text \<open>Presence of a molecule id in a store, and the ids of a store.\<close>

definition in_ephemeral :: "Ledger \<Rightarrow> nat \<Rightarrow> bool" where
  "in_ephemeral L i = (find_mol i (ephemeral L) \<noteq> None)"

definition in_durable :: "Ledger \<Rightarrow> nat \<Rightarrow> bool" where
  "in_durable L i = (find_mol i (durable L) \<noteq> None)"

definition ids :: "Molecule list \<Rightarrow> nat set" where
  "ids ms = mol_id ` set ms"

text \<open>
  The invariant of the ledger: the wisp flag tells the store, every id in use is below
  \<open>next_id\<close>, no digest refers to a wisp that is still in the ephemeral store, and the two
  stores share no id. \<open>settled i\<close> says that the id \<open>i\<close> is allocated and not in the durable
  store.
\<close>

definition ledger_inv :: "Ledger \<Rightarrow> bool" where
  "ledger_inv L \<longleftrightarrow>
     (\<forall>m \<in> set (ephemeral L). wisp m \<and> mol_id m < next_id L)
     \<and> (\<forall>m \<in> set (durable L). \<not> wisp m \<and> mol_id m < next_id L)
     \<and> (\<forall>d \<in> set (digests L). squashedFrom d < next_id L \<and> squashedFrom d \<notin> ids (ephemeral L))
     \<and> ids (ephemeral L) \<inter> ids (durable L) = {}"

definition settled :: "nat \<Rightarrow> Ledger \<Rightarrow> bool" where
  "settled i L \<longleftrightarrow> i < next_id L \<and> i \<notin> ids (durable L)"

section \<open>Example environments\<close>

text \<open>
  Concrete answers of the outside world, used where a statement is evaluated at an input: a
  caller with no role, a town at \<^verbatim>\<open>/town\<close> in which every rig exists and the session of a
  polecat is \<^verbatim>\<open>gt-<rig>-<polecat>\<close>; a tmux server without sessions, on which every nudge
  fails; a tmux server on which every session exists and the banner cannot be sent; and a
  tmux server that answers every paste and every key with an error. For the mail router:
  identities that are the addresses themselves, integer priorities passed on unchanged, a
  \<^verbatim>\<open>bd\<close> whose \<^verbatim>\<open>create\<close> succeeds and prints the id \<^verbatim>\<open>gt-123\<close> and whose every other
  subcommand fails, and a pinned message from \<^verbatim>\<open>gastown/furiosa\<close> to \<^verbatim>\<open>gastown/nux\<close>.
\<close>

definition example_env :: "string cmd_env" where
  "example_env =
     \<lparr>GetRole = Inl (ErrorText ''no role''), DeaconSessionName = ''gt-deacon'',
      FindFromCwdOrError = Inr ''/town'', FindFromCwd = Inr ''/town'',
      GetRig = (\<lambda>townRoot rigName. Inr rigName),
      SessionName = (\<lambda>r polecat. ''gt-'' @ r @ ''-'' @ polecat),
      crewSessionName = (\<lambda>rig crew. ''gt-'' @ rig @ ''-crew-'' @ crew)\<rparr>"

definition tmux_no_sessions :: Tmux where
  "tmux_no_sessions =
     \<lparr>HasSession = (\<lambda>s. Inr False),
      NudgeSession = (\<lambda>s m. Some (ErrorText ''session not found'')),
      SendNotificationBanner = (\<lambda>s f subj. Some (ErrorText ''session not found''))\<rparr>"

definition tmux_banner_fails :: Tmux where
  "tmux_banner_fails =
     \<lparr>HasSession = (\<lambda>s. Inr True), NudgeSession = (\<lambda>s m. None),
      SendNotificationBanner = (\<lambda>s f subj. Some (ErrorText ''send-keys failed''))\<rparr>"

definition tmux_send_fails :: "tmux_op \<Rightarrow> error option" where
  "tmux_send_fails op = Some (ErrorText ''send-keys failed'')"

definition example_mail_env :: "int mail_env" where
  "example_mail_env =
     \<lparr>addressToIdentity = (\<lambda>a. a), PriorityToBeads = (\<lambda>p. p),
      TypeNotification = ''notification'', TrimSpace = (\<lambda>s. s),
      run_bd = (\<lambda>dir args.
        if take 1 args = [''create'']
        then \<lparr>run_err = None, stdout = ''gt-123'', stderr = []\<rparr>
        else \<lparr>run_err = Some (ErrorText ''exit status 1''), stdout = [],
              stderr = ''Error: no such issue''\<rparr>)\<rparr>"

definition example_router :: Router where
  "example_router = \<lparr>workDir = ''/town'', tmux = tmux_banner_fails\<rparr>"

definition example_message :: "int Message" where
  "example_message =
     \<lparr>From = ''gastown/furiosa'', To = ''gastown/nux'', Subject = ''Status'', Body = ''All green'',
      Priority = 0, Type = ''task'', ThreadID = ''t-1'', ReplyTo = [], Pinned = True\<rparr>"

text \<open>
  For the wisp ledger: a proto of two steps, a patrol that completes both on the molecule
  with id 0, and the ledger that is left when that molecule has been squashed.
\<close>

definition example_protos :: "string \<Rightarrow> string list" where
  "example_protos proto = [''inbox-check'', ''health-scan'']"

definition example_patrol :: "ledger_op list" where
  "example_patrol = [CompleteStep 0 ''inbox-check'' 12, CompleteStep 0 ''health-scan'' 15]"

definition example_squashed :: Ledger where
  "example_squashed =
     \<lparr>ephemeral = [], durable = [],
      digests = [\<lparr>digest_id = 1, title = ''mol-deacon-patrol'', description = ''done'',
                  parentRef = ''mol-deacon-patrol'', squashedFrom = 0, createdAt = 20\<rparr>],
      next_id = 2\<rparr>"

section \<open>Facts about splitting at the first separator\<close>

lemma SplitN2_no_sep: "c \<notin> set s \<Longrightarrow> SplitN2 s c = [s]"
  by (simp add: SplitN2_def)

lemma takeWhile_until_sep: "c \<notin> set r \<Longrightarrow> takeWhile (\<lambda>x. x \<noteq> c) (r @ c # n) = r"
  by (induction r) auto

lemma dropWhile_until_sep: "c \<notin> set r \<Longrightarrow> dropWhile (\<lambda>x. x \<noteq> c) (r @ c # n) = c # n"
  by (induction r) auto

lemma SplitN2_sep: "c \<notin> set r \<Longrightarrow> SplitN2 (r @ c # n) c = [r, n]"
  by (simp add: SplitN2_def takeWhile_until_sep dropWhile_until_sep)

lemma SplitN2_decompose:
  assumes "c \<in> set s"
  shows "\<exists>r n. s = r @ c # n \<and> c \<notin> set r"
proof -
  from assms obtain r n where "s = r @ c # n" "c \<notin> set r"
    by (meson split_list_first)
  then show ?thesis by blast
qed

lemma parseAddress_no_sep:
  "CHR ''/'' \<notin> set a \<Longrightarrow> parseAddress a = ([], [], Some (InvalidFormat a))"
  by (simp add: parseAddress_def SplitN2_no_sep)

lemma parseAddress_sep:
  "CHR ''/'' \<notin> set r \<Longrightarrow>
   parseAddress (r @ CHR ''/'' # n) =
     (if r = [] \<or> n = [] then ([], [], Some (InvalidFormat (r @ CHR ''/'' # n))) else (r, n, None))"
  by (simp add: parseAddress_def SplitN2_sep)

lemma parseAddress_ok_iff:
  "parseAddress a = (r, n, None) \<longleftrightarrow>
     a = r @ CHR ''/'' # n \<and> CHR ''/'' \<notin> set r \<and> r \<noteq> [] \<and> n \<noteq> []"
proof (cases "CHR ''/'' \<in> set a")
  case False
  have "parseAddress a \<noteq> (r, n, None)"
    using False by (simp add: parseAddress_no_sep)
  moreover have "a \<noteq> r @ CHR ''/'' # n"
    using False by auto
  ultimately show ?thesis by simp
next
  case True
  from SplitN2_decompose [OF True]
  obtain r' n' where a: "a = r' @ CHR ''/'' # n'" and r': "CHR ''/'' \<notin> set r'"
    by (elim exE conjE)
  have parse: "parseAddress a =
      (if r' = [] \<or> n' = [] then ([], [], Some (InvalidFormat a)) else (r', n', None))"
    unfolding a using r' by (rule parseAddress_sep)
  show ?thesis
  proof
    assume "parseAddress a = (r, n, None)"
    with parse have "r = r' \<and> n = n' \<and> r' \<noteq> [] \<and> n' \<noteq> []"
      by (simp split: if_splits)
    with a r' show "a = r @ CHR ''/'' # n \<and> CHR ''/'' \<notin> set r \<and> r \<noteq> [] \<and> n \<noteq> []"
      by simp
  next
    assume h: "a = r @ CHR ''/'' # n \<and> CHR ''/'' \<notin> set r \<and> r \<noteq> [] \<and> n \<noteq> []"
    then have "parseAddress (r @ CHR ''/'' # n) = (r, n, None)"
      by (simp add: parseAddress_sep)
    with h show "parseAddress a = (r, n, None)"
      by simp
  qed
qed

lemma addressToSessionID_rig:
  assumes "\<not> HasPrefix (r @ CHR ''/'' # n) ''mayor''" "CHR ''/'' \<notin> set r" "n \<noteq> []"
  shows "addressToSessionID (r @ CHR ''/'' # n) = ''gt-'' @ r @ ''-'' @ n"
proof -
  have "SplitN2 (r @ CHR ''/'' # n) (CHR ''/'') = [r, n]"
    using assms(2) by (rule SplitN2_sep)
  with assms(1,3) show ?thesis
    by (simp add: addressToSessionID_def)
qed

lemma HasPrefix_iff: "HasPrefix s p \<longleftrightarrow> (\<exists>t. s = p @ t)"
proof
  assume "HasPrefix s p"
  then have "s = p @ drop (length p) s"
    by (metis HasPrefix_def append_take_drop_id)
  then show "\<exists>t. s = p @ t" ..
next
  assume "\<exists>t. s = p @ t"
  then show "HasPrefix s p"
    by (auto simp: HasPrefix_def)
qed

lemma HasPrefix_snoc:
  assumes "\<not> HasPrefix a p" and "c \<notin> set p"
  shows "\<not> HasPrefix (a @ [c]) p"
proof
  assume "HasPrefix (a @ [c]) p"
  then obtain t where t: "a @ [c] = p @ t"
    unfolding HasPrefix_iff ..
  show False
  proof (cases t rule: rev_cases)
    case Nil
    with t have "p = a @ [c]" by simp
    with assms(2) show False by simp
  next
    case (snoc t' c')
    with t have "a = p @ t'" by simp
    with assms(1) show False by (simp add: HasPrefix_iff)
  qed
qed

lemma append_sep_unique:
  assumes "c \<notin> set r1" "c \<notin> set r2" "r1 @ c # n1 = r2 @ c # n2"
  shows "r1 = r2 \<and> n1 = n2"
proof -
  have "takeWhile (\<lambda>x. x \<noteq> c) (r1 @ c # n1) = r1" "takeWhile (\<lambda>x. x \<noteq> c) (r2 @ c # n2) = r2"
    using assms(1,2) by (simp_all add: takeWhile_until_sep)
  with assms(3) have "r1 = r2" by simp
  with assms(3) show ?thesis by simp
qed

section \<open>Malformed addresses\<close>

text \<open>
  Claim C4. An address without a \<^verbatim>\<open>/\<close>, an address whose part before the first \<^verbatim>\<open>/\<close> is
  empty, and an address whose part after the first \<^verbatim>\<open>/\<close> is empty are all rejected by
  \<^verbatim>\<open>parseAddress\<close> with the invalid-format error, and the two result strings are both empty:
  no component of the address is returned next to the error.
\<close>

theorem parseAddress_malformed:
  assumes "CHR ''/'' \<notin> set a \<or> (\<exists>n. a = CHR ''/'' # n) \<or> (\<exists>r. CHR ''/'' \<notin> set r \<and> a = r @ ''/'')"
  shows "parseAddress a = ([], [], Some (InvalidFormat a))"
proof -
  from assms consider
      (nosep) "CHR ''/'' \<notin> set a"
    | (norig) n where "a = [] @ CHR ''/'' # n"
    | (noname) r where "CHR ''/'' \<notin> set r" "a = r @ CHR ''/'' # []"
    by auto
  then show ?thesis
  proof cases
    case nosep
    then show ?thesis by (simp add: parseAddress_def SplitN2_no_sep)
  next
    case norig
    have "SplitN2 ([] @ CHR ''/'' # n) (CHR ''/'') = [[], n]"
      by (rule SplitN2_sep) simp
    with norig show ?thesis by (simp add: parseAddress_def)
  next
    case noname
    have "SplitN2 (r @ CHR ''/'' # []) (CHR ''/'') = [r, []]"
      using noname(1) by (rule SplitN2_sep)
    with noname show ?thesis by (simp add: parseAddress_def)
  qed
qed

theorem parseAddress_malformed_witness:
  "parseAddress ''badformat'' = ([], [], Some (InvalidFormat ''badformat''))
   \<and> parseAddress ''/name'' = ([], [], Some (InvalidFormat ''/name''))
   \<and> parseAddress ''rig/'' = ([], [], Some (InvalidFormat ''rig/''))"
proof -
  have "CHR ''/'' \<notin> set ''badformat''" by simp
  then have 1: "parseAddress ''badformat'' = ([], [], Some (InvalidFormat ''badformat''))"
    by (intro parseAddress_malformed disjI1)
  have "\<exists>n. ''/name'' = CHR ''/'' # n" by simp
  then have 2: "parseAddress ''/name'' = ([], [], Some (InvalidFormat ''/name''))"
    by (intro parseAddress_malformed disjI2 disjI1)
  have "\<exists>r. CHR ''/'' \<notin> set r \<and> ''rig/'' = r @ ''/''"
    by (rule exI [of _ "''rig''"]) simp
  then have 3: "parseAddress ''rig/'' = ([], [], Some (InvalidFormat ''rig/''))"
    by (intro parseAddress_malformed disjI2)
  show ?thesis
    by (intro conjI 1 2 3)
qed

section \<open>Session identifiers of rig addresses\<close>

lemma parsed_address_sessionID:
  assumes "parseAddress a = (r, n, None)" "\<not> HasPrefix a ''mayor''"
  shows "addressToSessionID a = ''gt-'' @ r @ ''-'' @ n"
proof -
  from assms(1) have a: "a = r @ CHR ''/'' # n" and r: "CHR ''/'' \<notin> set r" and n: "n \<noteq> []"
    by (simp_all add: parseAddress_ok_iff)
  from assms(2) r n show ?thesis
    unfolding a by (rule addressToSessionID_rig)
qed

text \<open>
  Claim C1, as stated, fails: the identifier is the concatenation \<^verbatim>\<open>gt-<rig>-<name>\<close>, and a
  hyphen inside a rig or a name moves the boundary. The addresses \<^verbatim>\<open>a-b/c\<close> and \<^verbatim>\<open>a/b-c\<close>
  both parse, to different (rig, name) pairs, and both get \<^verbatim>\<open>gt-a-b-c\<close>.
\<close>

theorem sessionID_hyphen_collision:
  "parseAddress ''a-b/c'' = (''a-b'', ''c'', None)
   \<and> parseAddress ''a/b-c'' = (''a'', ''b-c'', None)
   \<and> (''a-b'', ''c'') \<noteq> (''a'', ''b-c'')
   \<and> addressToSessionID ''a-b/c'' = ''gt-a-b-c''
   \<and> addressToSessionID ''a/b-c'' = ''gt-a-b-c''"
  by (simp add: parseAddress_def addressToSessionID_def SplitN2_def HasPrefix_def)

text \<open>
  Claim C1, amended. For addresses that \<^verbatim>\<open>parseAddress\<close> accepts and that do not begin with
  \<^verbatim>\<open>mayor\<close>, the session identifier is determined by the parsed pair: it is
  \<^verbatim>\<open>gt-<rig>-<name>\<close>. When neither rig name contains a hyphen, two such addresses have the
  same identifier only if they have the same rig and the same name.
\<close>

theorem sessionID_injective_hyphen_free_rigs:
  assumes "parseAddress a = (r1, n1, None)" and "parseAddress b = (r2, n2, None)"
    and "\<not> HasPrefix a ''mayor''" and "\<not> HasPrefix b ''mayor''"
    and "CHR ''-'' \<notin> set r1" and "CHR ''-'' \<notin> set r2"
  shows "addressToSessionID a = ''gt-'' @ r1 @ ''-'' @ n1
         \<and> addressToSessionID b = ''gt-'' @ r2 @ ''-'' @ n2
         \<and> (addressToSessionID a = addressToSessionID b \<longleftrightarrow> r1 = r2 \<and> n1 = n2)"
proof -
  have ida: "addressToSessionID a = ''gt-'' @ r1 @ ''-'' @ n1"
    using assms(1,3) by (rule parsed_address_sessionID)
  have idb: "addressToSessionID b = ''gt-'' @ r2 @ ''-'' @ n2"
    using assms(2,4) by (rule parsed_address_sessionID)
  have "r1 = r2 \<and> n1 = n2" if "addressToSessionID a = addressToSessionID b"
  proof -
    from that ida idb have "r1 @ CHR ''-'' # n1 = r2 @ CHR ''-'' # n2"
      by simp
    with assms(5,6) show ?thesis
      by (rule append_sep_unique)
  qed
  moreover have "addressToSessionID a = addressToSessionID b" if "r1 = r2 \<and> n1 = n2"
    using that ida idb by simp
  ultimately have "addressToSessionID a = addressToSessionID b \<longleftrightarrow> r1 = r2 \<and> n1 = n2"
    by (rule iffI)
  with ida idb show ?thesis
    by (intro conjI)
qed

theorem sessionID_injective_hyphen_free_rigs_witness:
  "addressToSessionID ''gastown/furiosa'' = ''gt-gastown-furiosa''
   \<and> addressToSessionID ''wyvern/Toast'' = ''gt-wyvern-Toast''
   \<and> addressToSessionID ''gastown/furiosa'' \<noteq> addressToSessionID ''wyvern/Toast''"
proof -
  have p1: "parseAddress ''gastown/furiosa'' = (''gastown'', ''furiosa'', None)"
    by (simp add: parseAddress_def SplitN2_def)
  have p2: "parseAddress ''wyvern/Toast'' = (''wyvern'', ''Toast'', None)"
    by (simp add: parseAddress_def SplitN2_def)
  have m1: "\<not> HasPrefix ''gastown/furiosa'' ''mayor''"
    by (simp add: HasPrefix_def)
  have m2: "\<not> HasPrefix ''wyvern/Toast'' ''mayor''"
    by (simp add: HasPrefix_def)
  have h1: "CHR ''-'' \<notin> set ''gastown''" by simp
  have h2: "CHR ''-'' \<notin> set ''wyvern''" by simp
  from sessionID_injective_hyphen_free_rigs [OF p1 p2 m1 m2 h1 h2]
  show ?thesis by simp
qed

section \<open>Trailing-slash variants\<close>

text \<open>
  Claim C9, as stated, fails: neither \<^verbatim>\<open>parseAddress\<close> nor \<^verbatim>\<open>addressToSessionID\<close>
  normalises its argument. The address \<^verbatim>\<open>rig/name\<close> and its trailing-slash variant
  \<^verbatim>\<open>rig/name/\<close> parse to different names and get different session identifiers.
\<close>

theorem trailing_slash_not_normalised:
  "parseAddress ''rig/name'' = (''rig'', ''name'', None)
   \<and> parseAddress ''rig/name/'' = (''rig'', ''name/'', None)
   \<and> addressToSessionID ''rig/name'' = ''gt-rig-name''
   \<and> addressToSessionID ''rig/name/'' = ''gt-rig-name/''
   \<and> addressToSessionID ''rig/name'' \<noteq> addressToSessionID ''rig/name/''"
  by (simp add: parseAddress_def addressToSessionID_def SplitN2_def HasPrefix_def)

text \<open>
  Claim C9, amended. Addresses are taken byte for byte. For every address that
  \<^verbatim>\<open>parseAddress\<close> accepts and that does not begin with \<^verbatim>\<open>mayor\<close>, the trailing-slash variant
  is accepted too, with the same rig and with the slash kept as the last character of the
  name; its session identifier is the identifier of the original followed by the slash, so
  the two identifiers differ.
\<close>

theorem trailing_slash_variant:
  assumes "parseAddress a = (r, n, None)" and "\<not> HasPrefix a ''mayor''"
  shows "parseAddress (a @ ''/'') = (r, n @ ''/'', None)
         \<and> addressToSessionID (a @ ''/'') = addressToSessionID a @ ''/''
         \<and> addressToSessionID (a @ ''/'') \<noteq> addressToSessionID a"
proof -
  from assms(1) have a: "a = r @ CHR ''/'' # n" and r: "CHR ''/'' \<notin> set r"
    and r0: "r \<noteq> []" and n: "n \<noteq> []"
    by (simp_all add: parseAddress_ok_iff)
  have a': "a @ ''/'' = r @ CHR ''/'' # (n @ ''/'')"
    by (simp add: a)
  have parse: "parseAddress (a @ ''/'') = (r, n @ ''/'', None)"
    unfolding a' using r r0 by (simp add: parseAddress_sep)
  have "\<not> HasPrefix (a @ ''/'') ''mayor''"
    using assms(2) by (rule HasPrefix_snoc) simp
  with parse have "addressToSessionID (a @ ''/'') = ''gt-'' @ r @ ''-'' @ (n @ ''/'')"
    by (rule parsed_address_sessionID)
  moreover have "addressToSessionID a = ''gt-'' @ r @ ''-'' @ n"
    using assms by (rule parsed_address_sessionID)
  ultimately have eq: "addressToSessionID (a @ ''/'') = addressToSessionID a @ ''/''"
    by simp
  then have "addressToSessionID (a @ ''/'') \<noteq> addressToSessionID a"
    by simp
  with parse eq show ?thesis
    by (intro conjI)
qed

theorem trailing_slash_variant_witness:
  "parseAddress (''gastown/furiosa'' @ ''/'') = (''gastown'', ''furiosa'' @ ''/'', None)
   \<and> addressToSessionID (''gastown/furiosa'' @ ''/'') = addressToSessionID ''gastown/furiosa'' @ ''/''
   \<and> addressToSessionID (''gastown/furiosa'' @ ''/'') \<noteq> addressToSessionID ''gastown/furiosa''"
proof -
  have p: "parseAddress ''gastown/furiosa'' = (''gastown'', ''furiosa'', None)"
    by (simp add: parseAddress_def SplitN2_def)
  have m: "\<not> HasPrefix ''gastown/furiosa'' ''mayor''"
    by (simp add: HasPrefix_def)
  show ?thesis
    using p m by (rule trailing_slash_variant)
qed

section \<open>Addresses that begin with \<^verbatim>\<open>mayor\<close>\<close>

text \<open>
  Claim C10. Every recipient address that begins with the five characters \<^verbatim>\<open>mayor\<close> gets
  the session identifier \<^verbatim>\<open>gt-mayor\<close>, whatever follows them, and \<^verbatim>\<open>notifyRecipient\<close> then
  talks to that session only: it asks tmux whether \<^verbatim>\<open>gt-mayor\<close> exists and, if tmux answers
  yes, sends the banner to \<^verbatim>\<open>gt-mayor\<close>.
\<close>

theorem mayor_prefix_goes_to_mayor_session:
  assumes "HasPrefix (To msg) ''mayor''"
  shows "addressToSessionID (To msg) = ''gt-mayor''
         \<and> snd (notifyRecipient r msg) =
             Tmux_HasSession ''gt-mayor'' #
               (if HasSession (tmux r) ''gt-mayor'' = Inr True
                then [Tmux_SendNotificationBanner ''gt-mayor'' (From msg) (Subject msg)]
                else [])"
proof -
  have sid: "addressToSessionID (To msg) = ''gt-mayor''"
    using assms by (simp add: addressToSessionID_def)
  show ?thesis
  proof (cases "HasSession (tmux r) ''gt-mayor''")
    case (Inl err)
    with sid show ?thesis by (simp add: notifyRecipient_def Let_def)
  next
    case (Inr hasSession)
    with sid show ?thesis by (cases hasSession) (simp_all add: notifyRecipient_def Let_def)
  qed
qed

theorem mayor_prefix_goes_to_mayor_session_witness:
  "addressToSessionID ''mayorette/worker'' = ''gt-mayor''
   \<and> snd (notifyRecipient
        \<lparr>workDir = ''town'',
         tmux = \<lparr>HasSession = (\<lambda>s. Inr True), NudgeSession = (\<lambda>s m. None),
                 SendNotificationBanner = (\<lambda>s f subj. None)\<rparr>\<rparr>
        \<lparr>From = ''gastown/furiosa'', To = ''mayorette/worker'', Subject = ''hello'', Body = ''text'',
         Priority = (), Type = ''notification'', ThreadID = [], ReplyTo = [], Pinned = False\<rparr>)
     = [Tmux_HasSession ''gt-mayor'',
        Tmux_SendNotificationBanner ''gt-mayor'' ''gastown/furiosa'' ''hello'']"
proof -
  have "HasPrefix ''mayorette/worker'' ''mayor''"
    by (simp add: HasPrefix_def)
  then have "HasPrefix (To \<lparr>From = ''gastown/furiosa'', To = ''mayorette/worker'', Subject = ''hello'',
         Body = ''text'', Priority = (), Type = ''notification'', ThreadID = [], ReplyTo = [],
         Pinned = False\<rparr>) ''mayor''"
    by simp
  from mayor_prefix_goes_to_mayor_session [OF this]
  show ?thesis by simp
qed

section \<open>Nudging a session that does not exist\<close>

text \<open>
  Claim C3, as stated, fails for the \<^verbatim>\<open>deacon\<close> target: when tmux answers that the Deacon
  session does not exist, \<^verbatim>\<open>runNudge\<close> prints that the nudge was skipped and returns \<^verbatim>\<open>nil\<close>
  (the source says so: "Deacon not running - this is not an error, just log and return").
\<close>

theorem nudge_deacon_not_running_succeeds:
  "HasSession tmux_no_sessions (DeaconSessionName example_env) = Inr False
   \<and> runNudge example_env tmux_no_sessions ''deacon'' ''session-started''
       = (None, [Tmux_HasSession ''gt-deacon'', Printf DeaconNotRunning])"
  by (simp add: runNudge_def example_env_def tmux_no_sessions_def)

text \<open>
  Claim C3, amended. For every target that is a raw session name (it is not \<^verbatim>\<open>deacon\<close> and
  has no \<^verbatim>\<open>/\<close>) and whose session tmux reports as not existing, \<^verbatim>\<open>runNudge\<close> fails with the
  session-not-found error, after the existence check and nothing else. For the \<^verbatim>\<open>deacon\<close>
  target with no Deacon session the nudge is skipped and success is returned. For a
  \<^verbatim>\<open>rig/name\<close> target \<^verbatim>\<open>runNudge\<close> makes no existence check: it calls \<^verbatim>\<open>NudgeSession\<close> on the
  session of the address, and an error of that call is returned, wrapped as
  \<^verbatim>\<open>nudging session: ...\<close>.
\<close>

theorem nudge_missing_session:
  "(target \<noteq> ''deacon'' \<and> \<not> Contains target (CHR ''/'') \<and> HasSession t target = Inr False
      \<longrightarrow> runNudge e t target message = (Some (SessionNotFound target), [Tmux_HasSession target]))
   \<and> (HasSession t (DeaconSessionName e) = Inr False
      \<longrightarrow> runNudge e t ''deacon'' message =
            (None, [Tmux_HasSession (DeaconSessionName e), Printf DeaconNotRunning]))
   \<and> (Contains target (CHR ''/'') \<and> parseAddress target = (rigName, polecatName, None)
       \<and> nudge_session_name e rigName polecatName = Inr sessionName
       \<and> NudgeSession t sessionName (nudge_message e message) = Some err
      \<longrightarrow> runNudge e t target message =
            (Some (Wrapped ''nudging session'' err),
             [Tmux_NudgeSession sessionName (nudge_message e message)]))"
proof (intro conjI impI)
  assume "target \<noteq> ''deacon'' \<and> \<not> Contains target (CHR ''/'') \<and> HasSession t target = Inr False"
  then show "runNudge e t target message = (Some (SessionNotFound target), [Tmux_HasSession target])"
    by (simp add: runNudge_def)
next
  assume "HasSession t (DeaconSessionName e) = Inr False"
  then show "runNudge e t ''deacon'' message =
      (None, [Tmux_HasSession (DeaconSessionName e), Printf DeaconNotRunning])"
    by (simp add: runNudge_def)
next
  assume h: "Contains target (CHR ''/'') \<and> parseAddress target = (rigName, polecatName, None)
       \<and> nudge_session_name e rigName polecatName = Inr sessionName
       \<and> NudgeSession t sessionName (nudge_message e message) = Some err"
  then have "target \<noteq> ''deacon''"
    by (auto simp: Contains_def)
  with h show "runNudge e t target message =
      (Some (Wrapped ''nudging session'' err),
       [Tmux_NudgeSession sessionName (nudge_message e message)])"
    by (simp add: runNudge_def)
qed

theorem nudge_missing_session_witness:
  "runNudge example_env tmux_no_sessions ''gt-gastown-furiosa'' ''status?''
     = (Some (SessionNotFound ''gt-gastown-furiosa''), [Tmux_HasSession ''gt-gastown-furiosa''])
   \<and> runNudge example_env tmux_no_sessions ''deacon'' ''status?''
     = (None, [Tmux_HasSession ''gt-deacon'', Printf DeaconNotRunning])
   \<and> runNudge example_env tmux_no_sessions ''gastown/furiosa'' ''status?''
     = (Some (Wrapped ''nudging session'' (ErrorText ''session not found'')),
        [Tmux_NudgeSession ''gt-gastown-furiosa'' ''[from unknown] status?''])"
proof -
  have raw: "''gt-gastown-furiosa'' \<noteq> ''deacon'' \<and> \<not> Contains ''gt-gastown-furiosa'' (CHR ''/'')
      \<and> HasSession tmux_no_sessions ''gt-gastown-furiosa'' = Inr False"
    by (simp add: Contains_def tmux_no_sessions_def)
  have deacon: "HasSession tmux_no_sessions (DeaconSessionName example_env) = Inr False"
    by (simp add: tmux_no_sessions_def)
  have msg: "nudge_message example_env ''status?'' = ''[from unknown] status?''"
    by (simp add: nudge_message_def nudge_sender_def example_env_def)
  have name: "nudge_session_name example_env ''gastown'' ''furiosa'' = Inr ''gt-gastown-furiosa''"
    by (simp add: nudge_session_name_def getSessionManager_def HasPrefix_def example_env_def)
  have rig: "Contains ''gastown/furiosa'' (CHR ''/'')
      \<and> parseAddress ''gastown/furiosa'' = (''gastown'', ''furiosa'', None)
      \<and> nudge_session_name example_env ''gastown'' ''furiosa'' = Inr ''gt-gastown-furiosa''
      \<and> NudgeSession tmux_no_sessions ''gt-gastown-furiosa'' (nudge_message example_env ''status?'')
          = Some (ErrorText ''session not found'')"
    by (simp add: name Contains_def parseAddress_def SplitN2_def tmux_no_sessions_def)
  have dsn: "DeaconSessionName example_env = ''gt-deacon''"
    by (simp add: example_env_def)
  from nudge_missing_session [of "''gt-gastown-furiosa''" tmux_no_sessions example_env "''status?''"]
    raw
  have 1: "runNudge example_env tmux_no_sessions ''gt-gastown-furiosa'' ''status?''
     = (Some (SessionNotFound ''gt-gastown-furiosa''), [Tmux_HasSession ''gt-gastown-furiosa''])"
    by simp
  from nudge_missing_session [of _ tmux_no_sessions example_env "''status?''"] deacon
  have 2: "runNudge example_env tmux_no_sessions ''deacon'' ''status?''
     = (None, [Tmux_HasSession ''gt-deacon'', Printf DeaconNotRunning])"
    by (simp add: dsn)
  from nudge_missing_session [of "''gastown/furiosa''" tmux_no_sessions example_env "''status?''"
      "''gastown''" "''furiosa''" "''gt-gastown-furiosa''" "ErrorText ''session not found''"] rig
  have 3: "runNudge example_env tmux_no_sessions ''gastown/furiosa'' ''status?''
     = (Some (Wrapped ''nudging session'' (ErrorText ''session not found'')),
        [Tmux_NudgeSession ''gt-gastown-furiosa'' ''[from unknown] status?''])"
    by (simp add: msg)
  show ?thesis
    by (intro conjI 1 2 3)
qed

section \<open>Sending mail\<close>

lemma HasPrefix_Cons [simp]: "HasPrefix (c # s) (d # p) \<longleftrightarrow> c = d \<and> HasPrefix s p"
  by (auto simp: HasPrefix_def)

lemma HasPrefix_Nil [simp]: "HasPrefix s []"
  by (simp add: HasPrefix_def)

lemma notifyRecipient_no_bd:
  "filter is_bd_create (snd (notifyRecipient r msg)) = []
   \<and> filter is_bd_pin (snd (notifyRecipient r msg)) = []"
  by (simp add: notifyRecipient_def Let_def split: sum.split)

lemma Send_args_create: "\<exists>rest. Send_args e msg = ''create'' # rest"
  by (simp add: Send_args_def Let_def)

lemma create_call_kind:
  "is_bd_create (Exec_bd dir (Send_args e msg)) \<and> \<not> is_bd_pin (Exec_bd dir (Send_args e msg))"
proof -
  from Send_args_create [of e msg]
  obtain rest where "Send_args e msg = ''create'' # rest"
    by (elim exE)
  then show ?thesis by simp
qed

text \<open>
  Claim C5. When the \<^verbatim>\<open>bd create\<close> run succeeds, \<^verbatim>\<open>Send\<close> returns \<^verbatim>\<open>nil\<close>, whatever the pin
  request and the notification do: their outcomes are answers of the environment and of the
  tmux handle, and the statement holds for all of them. \<^verbatim>\<open>Send\<close> runs \<^verbatim>\<open>bd create\<close> exactly
  once in every case, so nothing makes it retry the create; and it runs \<^verbatim>\<open>bd pin\<close> only when
  the message is pinned and the create succeeded.
\<close>

theorem Send_best_effort:
  "(run_err (run_bd e (workDir r) (Send_args e msg)) = None \<longrightarrow> fst (Send e r msg) = None)
   \<and> filter is_bd_create (snd (Send e r msg)) = [Exec_bd (workDir r) (Send_args e msg)]
   \<and> (filter is_bd_pin (snd (Send e r msg)) \<noteq> [] \<longrightarrow>
        Pinned msg \<and> run_err (run_bd e (workDir r) (Send_args e msg)) = None)"
proof (cases "run_err (run_bd e (workDir r) (Send_args e msg))")
  case None
  then show ?thesis
    by (simp add: Send_def Let_def create_call_kind notifyRecipient_no_bd)
next
  case (Some err)
  then show ?thesis
    by (simp add: Send_def Let_def create_call_kind)
qed

theorem Send_best_effort_witness:
  "run_err (run_bd example_mail_env (workDir example_router)
      (Send_args example_mail_env example_message)) = None
   \<and> run_err (run_bd example_mail_env ''/town'' [''pin'', ''gt-123'']) = Some (ErrorText ''exit status 1'')
   \<and> SendNotificationBanner (tmux example_router) ''gt-gastown-nux'' ''gastown/furiosa'' ''Status''
        = Some (ErrorText ''send-keys failed'')
   \<and> fst (Send example_mail_env example_router example_message) = None
   \<and> filter is_bd_pin (snd (Send example_mail_env example_router example_message))
        = [Exec_bd ''/town'' [''pin'', ''gt-123'']]
   \<and> Pinned example_message"
proof -
  have created: "run_err (run_bd example_mail_env (workDir example_router)
      (Send_args example_mail_env example_message)) = None"
    by (simp add: example_mail_env_def Send_args_def Let_def)
  have pin_fails: "run_err (run_bd example_mail_env ''/town'' [''pin'', ''gt-123''])
      = Some (ErrorText ''exit status 1'')"
    by (simp add: example_mail_env_def)
  have banner_fails: "SendNotificationBanner (tmux example_router) ''gt-gastown-nux''
      ''gastown/furiosa'' ''Status'' = Some (ErrorText ''send-keys failed'')"
    by (simp add: example_router_def tmux_banner_fails_def)
  have ok: "fst (Send example_mail_env example_router example_message) = None"
    using Send_best_effort [of example_mail_env example_router example_message] created
    by simp
  have stdout: "stdout (run_bd example_mail_env (workDir example_router)
      (Send_args example_mail_env example_message)) = ''gt-123''"
    by (simp add: example_mail_env_def Send_args_def Let_def)
  have pinned: "filter is_bd_pin (snd (Send example_mail_env example_router example_message))
        = [Exec_bd ''/town'' [''pin'', ''gt-123'']]"
    using created stdout
    by (simp add: Send_def Let_def create_call_kind notifyRecipient_no_bd)
       (simp add: example_mail_env_def example_message_def example_router_def)
  have "Pinned example_message"
    using Send_best_effort [of example_mail_env example_router example_message] pinned
    by simp
  then show ?thesis
    by (intro conjI created pin_fails banner_fails ok pinned)
qed

text \<open>
  Claim C6, as stated, fails for a message whose type is the empty string: such a type is
  not \<^verbatim>\<open>TypeNotification\<close>, yet \<^verbatim>\<open>Send\<close> omits the \<^verbatim>\<open>msg-type:\<close> label, because the guard is
  \<^verbatim>\<open>msg.Type != "" && msg.Type != TypeNotification\<close>.
\<close>

theorem untyped_message_counterexample:
  "Type (example_message\<lparr>Type := []\<rparr>) \<noteq> TypeNotification example_mail_env
   \<and> Send_labels example_mail_env (example_message\<lparr>Type := []\<rparr>)
       = [''from:gastown/furiosa'', ''thread:t-1'']"
  by (simp add: Send_labels_def example_mail_env_def example_message_def)

text \<open>
  Claim C6, amended. The labels that \<^verbatim>\<open>Send\<close> builds hold exactly one \<^verbatim>\<open>from:\<close> label, made
  of the sender's identity; a \<^verbatim>\<open>thread:\<close> label exactly when the thread id is not empty; a
  \<^verbatim>\<open>reply-to:\<close> label exactly when the reply-to field is not empty; and a \<^verbatim>\<open>msg-type:\<close>
  label exactly when the type is not empty and is not \<^verbatim>\<open>TypeNotification\<close>. The labels are
  never empty, so they are always passed, joined by commas, after \<^verbatim>\<open>--labels\<close> in the
  \<^verbatim>\<open>bd create\<close> call, which is the first call \<^verbatim>\<open>Send\<close> makes.
\<close>

theorem Send_label_set:
  "filter (\<lambda>l. HasPrefix l ''from:'') (Send_labels e msg) = [''from:'' @ addressToIdentity e (From msg)]
   \<and> filter (\<lambda>l. HasPrefix l ''thread:'') (Send_labels e msg)
       = (if ThreadID msg \<noteq> [] then [''thread:'' @ ThreadID msg] else [])
   \<and> filter (\<lambda>l. HasPrefix l ''reply-to:'') (Send_labels e msg)
       = (if ReplyTo msg \<noteq> [] then [''reply-to:'' @ ReplyTo msg] else [])
   \<and> filter (\<lambda>l. HasPrefix l ''msg-type:'') (Send_labels e msg)
       = (if Type msg \<noteq> [] \<and> Type msg \<noteq> TypeNotification e then [''msg-type:'' @ Type msg] else [])
   \<and> drop 11 (Send_args e msg) = [''--labels'', Join (Send_labels e msg) '','', ''--silent'']
   \<and> hd (snd (Send e r msg)) = Exec_bd (workDir r) (Send_args e msg)"
proof (intro conjI)
  show "filter (\<lambda>l. HasPrefix l ''from:'') (Send_labels e msg) = [''from:'' @ addressToIdentity e (From msg)]"
    by (simp add: Send_labels_def Let_def)
  show "filter (\<lambda>l. HasPrefix l ''thread:'') (Send_labels e msg)
       = (if ThreadID msg \<noteq> [] then [''thread:'' @ ThreadID msg] else [])"
    by (simp add: Send_labels_def Let_def)
  show "filter (\<lambda>l. HasPrefix l ''reply-to:'') (Send_labels e msg)
       = (if ReplyTo msg \<noteq> [] then [''reply-to:'' @ ReplyTo msg] else [])"
    by (simp add: Send_labels_def Let_def)
  show "filter (\<lambda>l. HasPrefix l ''msg-type:'') (Send_labels e msg)
       = (if Type msg \<noteq> [] \<and> Type msg \<noteq> TypeNotification e then [''msg-type:'' @ Type msg] else [])"
    by (simp add: Send_labels_def Let_def)
  show "drop 11 (Send_args e msg) = [''--labels'', Join (Send_labels e msg) '','', ''--silent'']"
    by (simp add: Send_args_def Send_labels_def Let_def)
  show "hd (snd (Send e r msg)) = Exec_bd (workDir r) (Send_args e msg)"
    by (simp add: Send_def Let_def split: option.split)
qed

section \<open>The three steps of a nudge\<close>

lemma nudge_result:
  "nudge send s text =
     (case send (SendLiteral s text) of Some err \<Rightarrow> Some err | None \<Rightarrow> send (SendKey s ''Enter''),
      [SendLiteral s text, Settle 500, SendKey s ''Enter''])"
  by (simp add: nudge_def send_literal_def settle_def send_key_def)

lemma nudge_ops_append: "nudge_ops send (xs @ ys) = nudge_ops send xs @ nudge_ops send ys"
  by (induction send xs rule: nudge_ops.induct) simp_all

lemma nudge_ops_log: "nudge_ops send (nudge_log e rig target message) = []"
  by (simp add: nudge_log_def split: sum.split)

lemma runNudge_ops:
  "nudge_ops send (snd (runNudge e t target message)) = []
   \<or> (\<exists>s. nudge_ops send (snd (runNudge e t target message))
         = [SendLiteral s (nudge_message e message), Settle 500, SendKey s ''Enter''])"
  by (simp add: runNudge_def Let_def nudge_result nudge_ops_append nudge_ops_log
      split: sum.split option.split prod.split)

lemma runNudge_raw_session:
  assumes "target \<noteq> ''deacon''" and "\<not> Contains target (CHR ''/'')"
    and "HasSession t target = Inr True"
  shows "nudge_ops send (snd (runNudge e (tmux_with_nudge send t) target message))
           = [SendLiteral target (nudge_message e message), Settle 500, SendKey target ''Enter'']"
    and "fst (runNudge e (tmux_with_nudge send t) target message)
           = map_option (Wrapped ''nudging session'')
               (fst (nudge send target (nudge_message e message)))"
  using assms
  by (simp_all add: runNudge_def Let_def tmux_with_nudge_def nudge_result nudge_ops_append
      nudge_ops_log split: option.split)

text \<open>
  Claim C2. For every session and every text, whatever its length, and whatever the tmux
  server answers to the paste and to the key, a nudge asks tmux for exactly three operations,
  in this order: the literal paste of the text into the session, a settle delay of 500 ms,
  and the Enter key to the same session; among them is exactly one paste and exactly one
  key, and the nudge reports success exactly when both sends succeeded. For the \<^verbatim>\<open>nudge\<close>
  command: a run of \<^verbatim>\<open>runNudge\<close> makes at most one \<^verbatim>\<open>NudgeSession\<close> call, so it issues either
  no operation at all (it returned before the call) or exactly these three, on one session,
  with the prefixed message; for a raw session name that exists it issues the three on that
  session, and returns the failure of the nudge wrapped as \<^verbatim>\<open>nudging session: ...\<close>.
\<close>

theorem nudge_three_steps:
  "snd (nudge send sessionID text)
     = [SendLiteral sessionID text, Settle 500, SendKey sessionID ''Enter'']
   \<and> filter is_paste (snd (nudge send sessionID text)) = [SendLiteral sessionID text]
   \<and> filter is_commit_key (snd (nudge send sessionID text)) = [SendKey sessionID ''Enter'']
   \<and> (fst (nudge send sessionID text) = None
        \<longleftrightarrow> send (SendLiteral sessionID text) = None \<and> send (SendKey sessionID ''Enter'') = None)
   \<and> (nudge_ops send (snd (runNudge e (tmux_with_nudge send t) target message)) = []
        \<or> (\<exists>s. nudge_ops send (snd (runNudge e (tmux_with_nudge send t) target message))
              = [SendLiteral s (nudge_message e message), Settle 500, SendKey s ''Enter'']))
   \<and> (target \<noteq> ''deacon'' \<and> \<not> Contains target (CHR ''/'') \<and> HasSession t target = Inr True
        \<longrightarrow> nudge_ops send (snd (runNudge e (tmux_with_nudge send t) target message))
              = [SendLiteral target (nudge_message e message), Settle 500, SendKey target ''Enter'']
            \<and> fst (runNudge e (tmux_with_nudge send t) target message)
              = map_option (Wrapped ''nudging session'')
                  (fst (nudge send target (nudge_message e message))))"
proof (intro conjI impI)
  show "snd (nudge send sessionID text)
      = [SendLiteral sessionID text, Settle 500, SendKey sessionID ''Enter'']"
    by (simp add: nudge_result)
  show "filter is_paste (snd (nudge send sessionID text)) = [SendLiteral sessionID text]"
    by (simp add: nudge_result)
  show "filter is_commit_key (snd (nudge send sessionID text)) = [SendKey sessionID ''Enter'']"
    by (simp add: nudge_result)
  show "fst (nudge send sessionID text) = None
      \<longleftrightarrow> send (SendLiteral sessionID text) = None \<and> send (SendKey sessionID ''Enter'') = None"
    by (simp add: nudge_result split: option.split)
  show "nudge_ops send (snd (runNudge e (tmux_with_nudge send t) target message)) = []
      \<or> (\<exists>s. nudge_ops send (snd (runNudge e (tmux_with_nudge send t) target message))
            = [SendLiteral s (nudge_message e message), Settle 500, SendKey s ''Enter''])"
    by (rule runNudge_ops)
next
  assume h: "target \<noteq> ''deacon'' \<and> \<not> Contains target (CHR ''/'') \<and> HasSession t target = Inr True"
  then show "nudge_ops send (snd (runNudge e (tmux_with_nudge send t) target message))
      = [SendLiteral target (nudge_message e message), Settle 500, SendKey target ''Enter'']"
    by (simp add: runNudge_raw_session(1))
  from h show "fst (runNudge e (tmux_with_nudge send t) target message)
      = map_option (Wrapped ''nudging session'')
          (fst (nudge send target (nudge_message e message)))"
    by (simp add: runNudge_raw_session(2))
qed

theorem nudge_three_steps_witness:
  "fst (nudge tmux_send_fails ''gt-gastown-furiosa'' ''[from unknown] status?'')
     = Some (ErrorText ''send-keys failed'')
   \<and> snd (nudge tmux_send_fails ''gt-gastown-furiosa'' ''[from unknown] status?'')
     = [SendLiteral ''gt-gastown-furiosa'' ''[from unknown] status?'', Settle 500,
        SendKey ''gt-gastown-furiosa'' ''Enter'']
   \<and> nudge_ops tmux_send_fails
        (snd (runNudge example_env (tmux_with_nudge tmux_send_fails tmux_banner_fails)
               ''gt-gastown-furiosa'' ''status?''))
     = [SendLiteral ''gt-gastown-furiosa'' ''[from unknown] status?'', Settle 500,
        SendKey ''gt-gastown-furiosa'' ''Enter'']
   \<and> fst (runNudge example_env (tmux_with_nudge tmux_send_fails tmux_banner_fails)
            ''gt-gastown-furiosa'' ''status?'')
     = Some (Wrapped ''nudging session'' (ErrorText ''send-keys failed''))"
proof -
  have raw: "''gt-gastown-furiosa'' \<noteq> ''deacon'' \<and> \<not> Contains ''gt-gastown-furiosa'' (CHR ''/'')
      \<and> HasSession tmux_banner_fails ''gt-gastown-furiosa'' = Inr True"
    by (simp add: Contains_def tmux_banner_fails_def)
  have msg: "nudge_message example_env ''status?'' = ''[from unknown] status?''"
    by (simp add: nudge_message_def nudge_sender_def example_env_def)
  have failed: "fst (nudge tmux_send_fails ''gt-gastown-furiosa'' ''[from unknown] status?'')
      = Some (ErrorText ''send-keys failed'')"
    by (simp add: nudge_result tmux_send_fails_def)
  from nudge_three_steps [of tmux_send_fails "''gt-gastown-furiosa''" "''[from unknown] status?''"
      example_env tmux_banner_fails "''gt-gastown-furiosa''" "''status?''"] raw
  show ?thesis
    by (simp add: msg failed)
qed

section \<open>The invariant of the wisp ledger\<close>

lemma find_mol_None: "find_mol i ms = None \<longleftrightarrow> i \<notin> ids ms"
  by (auto simp: find_mol_def ids_def find_None_iff)

lemma find_mol_Some: "find_mol i ms = Some m \<Longrightarrow> m \<in> set ms \<and> mol_id m = i"
  by (auto simp: find_mol_def find_Some_iff)

lemma set_remove_mol: "set (remove_mol i ms) = {m \<in> set ms. mol_id m \<noteq> i}"
  by (auto simp: remove_mol_def)

lemma ids_remove_mol: "ids (remove_mol i ms) = ids ms - {i}"
  by (auto simp: ids_def set_remove_mol)

lemma ids_update_mol:
  assumes "\<And>m. mol_id (f m) = mol_id m"
  shows "ids (update_mol i f ms) = ids ms"
proof -
  have "map mol_id (update_mol i f ms) = map mol_id ms"
    by (induction ms) (simp_all add: update_mol_def assms)
  then have "set (map mol_id (update_mol i f ms)) = set (map mol_id ms)"
    by simp
  then show ?thesis
    by (simp add: ids_def)
qed

lemma set_update_mol: "m \<in> set (update_mol i f ms) \<Longrightarrow> m \<in> set ms \<or> (\<exists>m' \<in> set ms. m = f m')"
  by (auto simp: update_mol_def)

lemma ids_filter: "ids (filter P ms) \<subseteq> ids ms"
  by (auto simp: ids_def)

lemma ids_append [simp]: "ids (ms @ [m]) = insert (mol_id m) (ids ms)"
  by (auto simp: ids_def)

lemma ids_lt: "(\<forall>m \<in> set ms. P m \<and> mol_id m < n) \<Longrightarrow> i \<in> ids ms \<Longrightarrow> i < n"
  by (auto simp: ids_def)

lemma inv_empty: "ledger_inv empty_ledger"
  by (simp add: ledger_inv_def empty_ledger_def ids_def)

lemma inv_bond: "ledger_inv L \<Longrightarrow> ledger_inv (snd (bond protos proto w pid now L))"
  unfolding ledger_inv_def bond_def Let_def
  by (auto simp: new_molecule_def less_Suc_eq dest: ids_lt)

lemma complete_step_keeps [simp]:
  "mol_id (complete_step sid now m) = mol_id m" "wisp (complete_step sid now m) = wisp m"
  by (simp_all add: complete_step_def)

lemma inv_update:
  assumes "ledger_inv L" "\<And>m. mol_id (f m) = mol_id m" "\<And>m. wisp (f m) = wisp m"
  shows "ledger_inv (L\<lparr>ephemeral := update_mol i f (ephemeral L)\<rparr>)"
    and "ledger_inv (L\<lparr>durable := update_mol i f (durable L)\<rparr>)"
  using assms unfolding ledger_inv_def
  by (auto simp: ids_update_mol dest!: set_update_mol)

lemma inv_step: "ledger_inv L \<Longrightarrow> step mid sid now L = Inr L' \<Longrightarrow> ledger_inv L'"
  unfolding step_def
  by (auto split: option.splits if_splits intro: inv_update)

lemma inv_squash: "ledger_inv L \<Longrightarrow> squash mid summary now L = Inr (d, L') \<Longrightarrow> ledger_inv L'"
  unfolding squash_def ledger_inv_def
  by (auto split: option.splits simp: set_remove_mol ids_remove_mol new_digest_def less_Suc_eq
      find_mol_None dest!: find_mol_Some)

lemma inv_burn: "ledger_inv L \<Longrightarrow> ledger_inv (burn mid L)"
proof (cases "find_mol mid (ephemeral L)")
  case None
  assume "ledger_inv L"
  then have "ledger_inv (L\<lparr>durable := update_mol mid (\<lambda>m. m\<lparr>abandoned := True\<rparr>) (durable L)\<rparr>)"
    by (rule inv_update) simp_all
  with None show ?thesis by (simp add: burn_def)
next
  case (Some m)
  assume "ledger_inv L"
  with Some show ?thesis
    unfolding ledger_inv_def burn_def
    by (auto simp: set_remove_mol ids_remove_mol)
qed

lemma inv_gc: "ledger_inv L \<Longrightarrow> ledger_inv (snd (gc alive now threshold L))"
  unfolding ledger_inv_def gc_def
  using ids_filter by (auto; blast)

lemma inv_apply_op: "ledger_inv L \<Longrightarrow> ledger_inv (apply_op protos L op)"
  by (cases op) (auto simp: inv_bond inv_burn inv_gc split: sum.splits intro: inv_step inv_squash)

lemma inv_run: "ledger_inv L \<Longrightarrow> ledger_inv (run protos L ops)"
  unfolding run_def by (induction ops arbitrary: L) (simp_all add: inv_apply_op)

lemma settled_bond:
  "settled i L \<Longrightarrow> settled i (snd (bond protos proto w pid now L))"
  by (auto simp: settled_def bond_def Let_def new_molecule_def)

lemma settled_step: "settled i L \<Longrightarrow> step mid sid now L = Inr L' \<Longrightarrow> settled i L'"
  unfolding step_def settled_def
  by (auto split: option.splits if_splits simp: ids_update_mol)

lemma settled_squash: "settled i L \<Longrightarrow> squash mid summary now L = Inr (d, L') \<Longrightarrow> settled i L'"
  unfolding squash_def settled_def
  by (auto split: option.splits)

lemma settled_burn: "settled i L \<Longrightarrow> settled i (burn mid L)"
  unfolding burn_def settled_def
  by (auto split: option.splits simp: ids_update_mol)

lemma settled_gc: "settled i L \<Longrightarrow> settled i (snd (gc alive now threshold L))"
  by (simp add: settled_def gc_def)

lemma settled_apply_op: "settled i L \<Longrightarrow> settled i (apply_op protos L op)"
  by (cases op)
     (auto simp: settled_bond settled_burn settled_gc split: sum.splits
           intro: settled_step settled_squash)

lemma settled_run: "settled i L \<Longrightarrow> settled i (run protos L ops)"
  unfolding run_def by (induction ops arbitrary: L) (simp_all add: settled_apply_op)

lemma filter_ids_empty: "i \<notin> ids ms \<Longrightarrow> filter (\<lambda>x. mol_id x = i) ms = []"
  by (auto simp: ids_def filter_empty_conv)

lemma no_digest_of_live_wisp:
  assumes "ledger_inv L" "i \<in> ids (ephemeral L)"
  shows "filter (\<lambda>g. squashedFrom g = i) (digests L) = []"
  using assms by (auto simp: ledger_inv_def filter_empty_conv)

text \<open>
  Claim C7. After any sequence of bond, step, squash, burn and gc operations on an empty
  ledger, every molecule of the ephemeral store is a wisp, every molecule of the durable
  store is not, and no molecule id is present in both stores.
\<close>

theorem stores_never_overlap:
  "list_all wisp (ephemeral (run protos empty_ledger ops))
   \<and> list_all (\<lambda>m. \<not> wisp m) (durable (run protos empty_ledger ops))
   \<and> \<not> (in_ephemeral (run protos empty_ledger ops) i \<and> in_durable (run protos empty_ledger ops) i)"
proof -
  let ?L = "run protos empty_ledger ops"
  have inv: "ledger_inv ?L"
    using inv_empty by (rule inv_run)
  then have "list_all wisp (ephemeral ?L)" "list_all (\<lambda>m. \<not> wisp m) (durable ?L)"
    by (simp_all add: ledger_inv_def list_all_iff)
  moreover have "\<not> (in_ephemeral ?L i \<and> in_durable ?L i)"
    using inv by (auto simp: ledger_inv_def in_ephemeral_def in_durable_def find_mol_None)
  ultimately show ?thesis by simp
qed

text \<open>
  Claim C8. Take a wisp created by \<^verbatim>\<open>bond\<close> with \<^verbatim>\<open>wisp=true\<close> on a ledger reached by any
  operations, let any operations follow, and let a \<^verbatim>\<open>squash\<close> of that wisp succeed. Then the
  ephemeral store holds no record with the wisp's id, and the durable store holds exactly
  one digest whose \<open>squashedFrom\<close> is that id: the digest whose id the squash returned, with
  the summary as its description.
\<close>

theorem bond_wisp_then_squash:
  assumes "bond protos proto True pid now (run protos empty_ledger ops) = (m, L1)"
    and "squash (mol_id m) summary now' (run protos L1 ops') = Inr (d, L3)"
  shows "filter (\<lambda>x. mol_id x = mol_id m) (ephemeral L3) = []
         \<and> map (\<lambda>g. (digest_id g, description g))
               (filter (\<lambda>g. squashedFrom g = mol_id m) (digests L3)) = [(d, summary)]"
proof -
  let ?L = "run protos empty_ledger ops"
  let ?L2 = "run protos L1 ops'"
  let ?i = "mol_id m"
  have inv: "ledger_inv ?L"
    using inv_empty by (rule inv_run)
  have L1: "L1 = snd (bond protos proto True pid now ?L)"
    using assms(1) by simp
  have i: "?i = next_id ?L"
    using assms(1) by (auto simp: bond_def Let_def new_molecule_def)
  have inv1: "ledger_inv L1"
    unfolding L1 using inv by (rule inv_bond)
  have "settled ?i L1"
    using inv unfolding L1 i
    by (auto simp: settled_def bond_def Let_def ledger_inv_def dest: ids_lt)
  then have settled2: "settled ?i ?L2"
    by (rule settled_run)
  have inv2: "ledger_inv ?L2"
    using inv1 by (rule inv_run)
  from settled2 have "find_mol ?i (durable ?L2) = None"
    by (simp add: settled_def find_mol_None)
  with assms(2) obtain m' where found: "find_mol ?i (ephemeral ?L2) = Some m'"
    by (auto simp: squash_def split: option.splits)
  with assms(2) have d: "d = next_id ?L2"
    and L3: "L3 = ?L2\<lparr>digests := digests ?L2 @ [new_digest (next_id ?L2) m' summary now'],
                     ephemeral := remove_mol ?i (ephemeral ?L2),
                     next_id := Suc (next_id ?L2)\<rparr>"
    by (auto simp: squash_def)
  from found have m': "m' \<in> set (ephemeral ?L2)" "mol_id m' = ?i"
    by (simp_all add: find_mol_Some)
  then have "?i \<in> ids (ephemeral ?L2)"
    unfolding ids_def by (metis imageI)
  with inv2 have none_before: "filter (\<lambda>g. squashedFrom g = ?i) (digests ?L2) = []"
    by (rule no_digest_of_live_wisp)
  have gone: "filter (\<lambda>x. mol_id x = ?i) (ephemeral L3) = []"
    by (rule filter_ids_empty) (simp add: L3 ids_remove_mol)
  have "filter (\<lambda>g. squashedFrom g = ?i) (digests L3) = [new_digest d m' summary now']"
    using none_before m'(2) by (simp add: L3 d new_digest_def)
  then have "map (\<lambda>g. (digest_id g, description g))
       (filter (\<lambda>g. squashedFrom g = ?i) (digests L3)) = [(d, summary)]"
    by (simp add: new_digest_def)
  with gone show ?thesis by simp
qed

theorem bond_wisp_then_squash_witness:
  "squash 0 ''done'' 20
     (run example_protos
        (snd (bond example_protos ''mol-deacon-patrol'' True None 10 empty_ledger))
        example_patrol)
     = Inr (1, example_squashed)
   \<and> filter (\<lambda>x. mol_id x = 0) (ephemeral example_squashed) = []
   \<and> map (\<lambda>g. (digest_id g, description g))
       (filter (\<lambda>g. squashedFrom g = 0) (digests example_squashed)) = [(1, ''done'')]"
proof -
  let ?m = "new_molecule example_protos 0 ''mol-deacon-patrol'' True None 10"
  let ?L1 = "\<lparr>ephemeral = [?m], durable = [], digests = [], next_id = 1\<rparr>"
  have b: "bond example_protos ''mol-deacon-patrol'' True None 10 (run example_protos empty_ledger [])
      = (?m, ?L1)"
    by (simp add: bond_def run_def empty_ledger_def Let_def)
  have b': "snd (bond example_protos ''mol-deacon-patrol'' True None 10 empty_ledger) = ?L1"
    by (simp add: bond_def empty_ledger_def Let_def)
  have s: "squash (mol_id ?m) ''done'' 20 (run example_protos ?L1 example_patrol)
      = Inr (1, example_squashed)"
    by (simp add: squash_def run_def example_patrol_def step_def find_mol_def update_mol_def
        remove_mol_def complete_step_def new_molecule_def new_digest_def example_protos_def
        example_squashed_def)
  have i: "mol_id ?m = 0"
    by (simp add: new_molecule_def)
  from bond_wisp_then_squash [OF b s] s show ?thesis
    by (simp add: b' i)
qed

end
